theory Spec2Isabelle
  imports Main
begin

section \<open>The MCP server stub of \<^verbatim>\<open>server.py\<close>\<close>

text \<open>
  \<^verbatim>\<open>server.py\<close> holds two pieces of code: the tool
  \<^verbatim>\<open>get_email_campaign_data\<close>, whose body is a docstring, a block of comments and
  the statement \<^verbatim>\<open>pass\<close>, and the \<^verbatim>\<open>__main__\<close> block that runs the server
  inside a \<^verbatim>\<open>try\<close> with two handlers. Both are embedded below as they are written.
\<close>

subsection \<open>Python values, spec conditions, the environment of a call\<close>

text \<open>The values a call of the tool can hand back: \<^verbatim>\<open>None\<close> or a \<^verbatim>\<open>str\<close>.\<close>

datatype pyval = PyNone | PyStr string

text \<open>
  The three failure conditions the specification names. A call of the tool ends either in
  one of them (\<open>Inl\<close>) or in a returned value (\<open>Inr\<close>).
\<close>

datatype condition = InvalidArgument | NotFound | DataUnavailable

type_synonym response = "condition + pyval"

text \<open>
  Modelled from the spec: the campaign record. The repository defines no schema for the
  backing file \<^verbatim>\<open>mock_data.json\<close>; the fields are the ones section 3 of the
  specification lists, each kept as the text it has in the file.
\<close>

record campaign =
  name :: string
  subject_line :: string
  open_rate :: string
  conversion_rate :: string
  revenue :: string
  audience :: string

text \<open>
  Modelled from the spec: the state of the backing file, which is missing, present but
  malformed (with its raw text), or present and holding a list of campaign records.
\<close>

datatype source_file = Missing | Malformed string | Records "campaign list"

datatype level = INFO | ERROR

type_synonym log_record = "level \<times> string"

text \<open>
  Everything outside the tool that a call could observe or change: the backing file, how
  many times a file has been opened, and the records the logger has emitted.
\<close>

record world =
  backing_file :: source_file
  file_reads :: nat
  log_records :: "log_record list"

subsection \<open>The tool\<close>

text \<open>
  \<^verbatim>\<open>def get_email_campaign_data(query_type: str = "all", campaign_name: str = None) -> str:\<close>
  with the body \<^verbatim>\<open>pass\<close>. A Python function whose body ends without a
  \<^verbatim>\<open>return\<close> returns \<^verbatim>\<open>None\<close>; the body reads no argument, opens no file
  and calls no logger, so the world is handed back as it came.
\<close>

definition get_email_campaign_data ::
  "string \<Rightarrow> string option \<Rightarrow> world \<Rightarrow> response \<times> world" where
  "get_email_campaign_data query_type campaign_name w = (Inr PyNone, w)"

text \<open>The defaults of the signature: \<^verbatim>\<open>query_type = "all"\<close>, \<^verbatim>\<open>campaign_name = None\<close>.\<close>

definition default_query_type :: string where
  "default_query_type = ''all''"

definition default_campaign_name :: "string option" where
  "default_campaign_name = None"

text \<open>
  Python's binding of the arguments of a call: an argument the caller leaves out (\<open>None\<close>
  at the outer level) takes the default of the signature, one the caller passes is used as
  passed. For \<^verbatim>\<open>campaign_name\<close> a passed value is itself \<^verbatim>\<open>None\<close> or a string.
\<close>

definition bind_args :: "string option \<Rightarrow> string option option \<Rightarrow> string \<times> string option" where
  "bind_args qt cn =
     ((case qt of None \<Rightarrow> default_query_type | Some q \<Rightarrow> q),
      (case cn of None \<Rightarrow> default_campaign_name | Some c \<Rightarrow> c))"

definition call_tool ::
  "string option \<Rightarrow> string option option \<Rightarrow> world \<Rightarrow> response \<times> world" where
  "call_tool qt cn w =
     get_email_campaign_data (fst (bind_args qt cn)) (snd (bind_args qt cn)) w"

text \<open>The four values of \<^verbatim>\<open>query_type\<close> the docstring lists.\<close>

definition recognized :: "string \<Rightarrow> bool" where
  "recognized q = (q = ''all'' \<or> q = ''performance'' \<or> q = ''subjects'' \<or> q = ''metrics'')"

subsection \<open>Reading a response\<close>

definition is_text :: "response \<Rightarrow> bool" where
  "is_text r = (case r of Inr (PyStr t) \<Rightarrow> True | _ \<Rightarrow> False)"

definition is_condition :: "response \<Rightarrow> bool" where
  "is_condition r = (case r of Inl c \<Rightarrow> True | Inr v \<Rightarrow> False)"

text \<open>Python's \<^verbatim>\<open>s in t\<close> on strings: \<open>s\<close> occurs in \<open>t\<close> as a contiguous piece.\<close>

primrec occurs_in :: "string \<Rightarrow> string \<Rightarrow> bool" where
  "occurs_in s [] = (s = [])"
| "occurs_in s (c # t) = (take (length s) (c # t) = s \<or> occurs_in s t)"

text \<open>
  A response contains a piece of text when it is a string and the piece occurs in it. A
  response that is \<^verbatim>\<open>None\<close> or a condition contains no text at all.
\<close>

definition response_contains :: "response \<Rightarrow> string \<Rightarrow> bool" where
  "response_contains r s = (case r of Inr (PyStr t) \<Rightarrow> occurs_in s t | _ \<Rightarrow> False)"

text \<open>The records of the source set whose name is the given one, and the data of the file.\<close>

definition records_of :: "source_file \<Rightarrow> campaign list" where
  "records_of f = (case f of Records rs \<Rightarrow> rs | _ \<Rightarrow> [])"

definition matching :: "string \<Rightarrow> source_file \<Rightarrow> campaign list" where
  "matching n f = filter (\<lambda>r. name r = n) (records_of f)"

definition fields :: "campaign \<Rightarrow> string list" where
  "fields r = [name r, subject_line r, open_rate r, conversion_rate r, revenue r, audience r]"

definition source_data :: "source_file \<Rightarrow> string list" where
  "source_data f = concat (map fields (records_of f))"

definition unavailable :: "source_file \<Rightarrow> bool" where
  "unavailable f = (case f of Records rs \<Rightarrow> False | _ \<Rightarrow> True)"

subsection \<open>The process host\<close>

text \<open>
  The exceptions \<^verbatim>\<open>mcp.run\<close> can end in, by their place in Python's hierarchy:
  \<^verbatim>\<open>KeyboardInterrupt\<close> and \<^verbatim>\<open>SystemExit\<close> (both outside \<^verbatim>\<open>Exception\<close>), an
  instance of \<^verbatim>\<open>Exception\<close> or of a subclass of it (with the text \<^verbatim>\<open>str(e)\<close>),
  and any other \<^verbatim>\<open>BaseException\<close> outside \<^verbatim>\<open>Exception\<close>.
\<close>

datatype exn =
  KeyboardInterrupt
| SystemExit int
| PyException string
| OtherBaseException string

datatype run_result = Run_returns | Run_raises exn

text \<open>
  \<^verbatim>\<open>
  try:
      logger.info("Starting AI Engineer MCP Server...")
      mcp.run(transport="stdio")
  except KeyboardInterrupt:
      logger.info("Server stopped by user")
  except Exception as e:
      logger.error(f"Server error: {e}")
      sys.exit(1)
  \<close>
  The block takes what \<^verbatim>\<open>mcp.run\<close> ended in and the log so far; it gives the
  exception that leaves the block, if any (\<^verbatim>\<open>sys.exit(1)\<close> raises
  \<^verbatim>\<open>SystemExit(1)\<close>), and the log.
\<close>

definition main_block :: "run_result \<Rightarrow> log_record list \<Rightarrow> exn option \<times> log_record list" where
  "main_block r lg =
     (let lg1 = lg @ [(INFO, ''Starting AI Engineer MCP Server...'')] in
      case r of
        Run_returns \<Rightarrow> (None, lg1)
      | Run_raises KeyboardInterrupt \<Rightarrow> (None, lg1 @ [(INFO, ''Server stopped by user'')])
      | Run_raises (PyException msg) \<Rightarrow>
          (Some (SystemExit 1), lg1 @ [(ERROR, ''Server error: '' @ msg)])
      | Run_raises (SystemExit c) \<Rightarrow> (Some (SystemExit c), lg1)
      | Run_raises (OtherBaseException m) \<Rightarrow> (Some (OtherBaseException m), lg1))"

text \<open>
  The exit status of the process, by what leaves the script: 0 when it runs off its end;
  the low eight bits of the integer code of a \<^verbatim>\<open>SystemExit\<close>; 130 for a
  \<^verbatim>\<open>KeyboardInterrupt\<close> (the interpreter ends on the interrupt signal); 1 for any
  other exception, after the interpreter has printed its traceback.
\<close>

definition exit_status :: "exn option \<Rightarrow> int" where
  "exit_status e =
     (case e of
        None \<Rightarrow> 0
      | Some (SystemExit c) \<Rightarrow> c mod 256
      | Some KeyboardInterrupt \<Rightarrow> 130
      | Some (PyException m) \<Rightarrow> 1
      | Some (OtherBaseException m) \<Rightarrow> 1)"

definition run_process :: "run_result \<Rightarrow> log_record list \<Rightarrow> int \<times> log_record list" where
  "run_process r lg = (exit_status (fst (main_block r lg)), snd (main_block r lg))"

subsection \<open>Concrete inputs\<close>

definition spring_sale :: campaign where
  "spring_sale =
     \<lparr>name = ''Spring Sale'', subject_line = ''Save big this spring'', open_rate = ''0.42'',
      conversion_rate = ''0.05'', revenue = ''12500'', audience = ''newsletter subscribers''\<rparr>"

definition world_loaded :: world where
  "world_loaded = \<lparr>backing_file = Records [spring_sale], file_reads = 0, log_records = []\<rparr>"

definition world_missing :: world where
  "world_missing = \<lparr>backing_file = Missing, file_reads = 0, log_records = []\<rparr>"

section \<open>Properties\<close>

subsection \<open>Helper facts\<close>

lemma tool_returns_none: "fst (get_email_campaign_data q c w) = Inr PyNone"
  by (simp add: get_email_campaign_data_def)

lemma tool_keeps_world: "snd (get_email_campaign_data q c w) = w"
  by (simp add: get_email_campaign_data_def)

lemma none_contains_nothing: "\<not> response_contains (Inr PyNone) s"
  by (simp add: response_contains_def)

lemma none_is_not_text: "\<not> is_text (Inr PyNone)"
  by (simp add: is_text_def)

lemma none_is_not_condition: "\<not> is_condition (Inr PyNone)"
  by (simp add: is_condition_def)

lemma unknown_matches_nothing: "matching ''Unknown'' (backing_file world_loaded) = []"
  by (simp add: matching_def records_of_def world_loaded_def spring_sale_def)

lemma spring_sale_matches: "matching ''Spring Sale'' (backing_file world_loaded) = [spring_sale]"
  by (simp add: matching_def records_of_def world_loaded_def spring_sale_def)

text \<open>
  What the \<^verbatim>\<open>__main__\<close> block does with the exceptions neither handler names: they
  leave the block as they came, and nothing more is logged.
\<close>

lemma main_block_system_exit:
  "run_process (Run_raises (SystemExit c)) lg =
     (c mod 256, lg @ [(INFO, ''Starting AI Engineer MCP Server...'')])"
  by (simp add: run_process_def main_block_def exit_status_def)

lemma main_block_other_base_exception:
  "run_process (Run_raises (OtherBaseException m)) lg =
     (1, lg @ [(INFO, ''Starting AI Engineer MCP Server...'')])"
  by (simp add: run_process_def main_block_def exit_status_def)

lemma main_block_run_returns:
  "run_process Run_returns lg = (0, lg @ [(INFO, ''Starting AI Engineer MCP Server...'')])"
  by (simp add: run_process_def main_block_def exit_status_def)

subsection \<open>The claims\<close>

text \<open>
  C1 (the result is a text string). The signature is annotated \<^verbatim>\<open>-> str\<close> and the
  docstring promises structured campaign data, but the body is \<^verbatim>\<open>pass\<close>: called
  with the recognized query type \<^verbatim>\<open>"all"\<close> and no campaign name, the tool returns
  \<^verbatim>\<open>None\<close>, which is not a string.
\<close>

theorem stub_returns_none_not_text:
  "recognized ''all'' \<and>
   fst (get_email_campaign_data ''all'' None world_loaded) = Inr PyNone \<and>
   \<not> is_text (fst (get_email_campaign_data ''all'' None world_loaded))"
  by (simp add: recognized_def tool_returns_none none_is_not_text)

text \<open>
  C2 (an unknown campaign name gives the NotFound shape). The comments of the body ask for
  the filtering by \<^verbatim>\<open>campaign_name\<close> that the body does not do. With the source set
  holding the one record \<^verbatim>\<open>Spring Sale\<close>, the name \<^verbatim>\<open>Unknown\<close> matches no
  record, and the call gives neither the NotFound condition nor any text: it gives the
  very response the matching name \<^verbatim>\<open>Spring Sale\<close> gets.
\<close>

theorem unknown_campaign_gets_ordinary_response:
  "matching ''Unknown'' (backing_file world_loaded) = [] \<and>
   matching ''Spring Sale'' (backing_file world_loaded) \<noteq> [] \<and>
   fst (get_email_campaign_data ''all'' (Some ''Unknown'') world_loaded) \<noteq> Inl NotFound \<and>
   \<not> is_text (fst (get_email_campaign_data ''all'' (Some ''Unknown'') world_loaded)) \<and>
   fst (get_email_campaign_data ''all'' (Some ''Unknown'') world_loaded) =
     fst (get_email_campaign_data ''all'' (Some ''Spring Sale'') world_loaded)"
  by (simp add: unknown_matches_nothing spring_sale_matches tool_returns_none none_is_not_text)

text \<open>
  C3 (a missing or malformed backing file gives a logged DataUnavailable condition). The
  comments of the body ask for the load of \<^verbatim>\<open>mock_data.json\<close> that the body does not
  do. With the file missing, the call ends in no condition at all, opens no file, logs
  nothing, and gives the response it gives when the file is there.
\<close>

theorem missing_file_goes_unnoticed:
  "unavailable (backing_file world_missing) \<and>
   fst (get_email_campaign_data ''all'' None world_missing) \<noteq> Inl DataUnavailable \<and>
   \<not> is_condition (fst (get_email_campaign_data ''all'' None world_missing)) \<and>
   file_reads (snd (get_email_campaign_data ''all'' None world_missing)) = 0 \<and>
   log_records (snd (get_email_campaign_data ''all'' None world_missing)) = [] \<and>
   fst (get_email_campaign_data ''all'' None world_missing) =
     fst (get_email_campaign_data ''all'' None world_loaded)"
  by (simp add: unavailable_def tool_returns_none tool_keeps_world
      none_is_not_condition world_missing_def)

text \<open>
  C4 (projection): for every state of the source set, every campaign name or none, and
  every record \<open>r\<close>, the response to \<^verbatim>\<open>query_type = "performance"\<close> does not contain
  the subject line of \<open>r\<close>, and the response to \<^verbatim>\<open>query_type = "subjects"\<close> does not
  contain the revenue figure of \<open>r\<close>. (Both responses are \<^verbatim>\<open>None\<close>, which contains
  no text.)
\<close>

theorem projection_excludes_other_fields:
  "\<not> response_contains (fst (get_email_campaign_data ''performance'' cn w)) (subject_line r) \<and>
   \<not> response_contains (fst (get_email_campaign_data ''subjects'' cn w)) (revenue r)"
  by (simp add: tool_returns_none none_contains_nothing)

text \<open>
  C5 (no invented data): for every call and every state of the backing file, the pieces of
  text the response contains all belong to the data of the backing file; the response
  introduces nothing. (The set of pieces it contains is empty.)
\<close>

theorem response_data_from_source:
  "{s. response_contains (fst (get_email_campaign_data q c w)) s}
     \<subseteq> set (source_data (backing_file w)) \<and>
   {s. response_contains (fst (get_email_campaign_data q c w)) s} = {}"
  by (simp add: tool_returns_none none_contains_nothing)

text \<open>
  C6 (repeated calls): a call leaves the backing file unchanged, and the same call made
  again, in the world the first call left, gives the same output.
\<close>

theorem repeated_call_same_output:
  "backing_file (snd (get_email_campaign_data q c w)) = backing_file w \<and>
   fst (get_email_campaign_data q c (snd (get_email_campaign_data q c w))) =
     fst (get_email_campaign_data q c w)"
  by (simp add: tool_returns_none tool_keeps_world)

text \<open>
  C7 (defaults): the declared defaults are \<^verbatim>\<open>"all"\<close> and absent (\<^verbatim>\<open>None\<close>). A
  call that leaves both arguments out binds \<^verbatim>\<open>query_type = "all"\<close> and
  \<^verbatim>\<open>campaign_name = None\<close>; one that leaves \<^verbatim>\<open>query_type\<close> out binds
  \<^verbatim>\<open>"all"\<close> and the campaign name it was given; one that leaves
  \<^verbatim>\<open>campaign_name\<close> out binds no name and the query type it was given; arguments
  that are passed are bound as passed. So a call without \<^verbatim>\<open>query_type\<close> binds the
  same arguments, and gives the same result, as one that passes \<^verbatim>\<open>"all"\<close>, and a
  call without \<^verbatim>\<open>campaign_name\<close> the same as one that passes \<^verbatim>\<open>None\<close>.
\<close>

theorem defaults_all_and_absent:
  "bind_args None None = (''all'', None) \<and>
   bind_args None (Some c) = (''all'', c) \<and>
   bind_args (Some q) None = (q, None) \<and>
   bind_args (Some q) (Some c) = (q, c) \<and>
   default_query_type = ''all'' \<and> default_campaign_name = None \<and>
   bind_args None cn = bind_args (Some ''all'') cn \<and>
   call_tool None cn w = call_tool (Some ''all'') cn w \<and>
   snd (bind_args qt None) = None \<and>
   bind_args qt None = bind_args qt (Some None) \<and>
   call_tool qt None w = call_tool qt (Some None) w \<and>
   call_tool None None w = get_email_campaign_data ''all'' None w"
  by (simp add: default_query_type_def default_campaign_name_def bind_args_def call_tool_def)



text \<open>
  C9 (independence of the arguments): any two calls, whatever their query types and
  campaign names, give the same result in the same world.
\<close>

theorem output_independent_of_arguments:
  "get_email_campaign_data q1 c1 w = get_email_campaign_data q2 c2 w"
  by (simp add: get_email_campaign_data_def)

text \<open>
  C10 (no exception, no I/O): for every query type, recognized or not, and every campaign
  name, the call returns (it ends in no condition, the value is \<^verbatim>\<open>None\<close>), opens no
  file, logs nothing and leaves the backing file as it was.
\<close>

theorem tool_returns_without_effects:
  "\<not> is_condition (fst (get_email_campaign_data q c w)) \<and>
   fst (get_email_campaign_data q c w) = Inr PyNone \<and>
   file_reads (snd (get_email_campaign_data q c w)) = file_reads w \<and>
   log_records (snd (get_email_campaign_data q c w)) = log_records w \<and>
   backing_file (snd (get_email_campaign_data q c w)) = backing_file w"
  by (simp add: tool_returns_none tool_keeps_world none_is_not_condition)

end
